theory Spec2Isabelle
  imports Complex_Main
begin

section \<open>Indiana truck parking dashboard: the logic of \<^verbatim>\<open>app.py\<close>\<close>

text \<open>
  The script is re-executed from top to bottom on every interaction. The parts of it
  that decide something are embedded here: the click sanitiser and the two session
  fields (lines 282-321, 386-389), the join of the daily metrics onto the county
  geometry with its fill and format loops (lines 248-273), the style function of the
  diagnosis map (lines 104-117), and the hourly aggregation with its download
  (lines 329-353, 393).

  Conventions of the embedding.
  \<^item> A Python string is a \<^typ>\<open>string\<close>; a character is a code point below 256. On
    these the pattern \<^verbatim>\<open>\D\<close> of \<^verbatim>\<open>re\<close> matches exactly the characters outside
    \<^verbatim>\<open>0-9\<close>. The two diagnosis labels that contain a character beyond that range
    are written as their UTF-8 bytes; they are only ever compared for equality.
  \<^item> A float is a real number, and the one non-number the code can produce (NaN) is
    a value of its own. Rounding error and infinities are not represented.
  \<^item> A column read from a file has a numeric dtype when all its entries are numbers or
    missing. In a column that also holds a text, pandas keeps every entry as a text;
    the model writes the entries that read as numbers as numbers all the same. This is
    exact wherever an entry is parsed and wherever at most one entry is reduced; it is
    not where Python would compare or concatenate several such texts (the maximum of
    line 334 over more than one row, the sum of line 339, on a text column).
  \<^item> An exception is a value of type \<open>error\<close>.
\<close>

subsection \<open>Sanitising the popup text (lines 315-316)\<close>

text \<open>\<^verbatim>\<open>re.sub(r"\D", "", raw)\<close>: every character that is not a decimal digit is deleted.\<close>

definition is_digit :: "char \<Rightarrow> bool" where
  "is_digit c \<longleftrightarrow> c \<in> set ''0123456789''"

definition re_sub_nondigit :: "string \<Rightarrow> string" where
  "re_sub_nondigit raw = filter is_digit raw"

text \<open>
  \<^verbatim>\<open>str.zfill(width)\<close>: a string at least \<open>width\<close> long is returned as it is; a
  shorter one gets zeros on the left, after a leading sign if there is one.
\<close>

definition zfill :: "nat \<Rightarrow> string \<Rightarrow> string" where
  "zfill width s =
     (if width \<le> length s then s
      else (case s of
              [] \<Rightarrow> replicate width (CHR ''0'')
            | c # cs \<Rightarrow>
                if c = CHR ''+'' \<or> c = CHR ''-''
                then c # replicate (width - length s) (CHR ''0'') @ cs
                else replicate (width - length s) (CHR ''0'') @ s))"

definition cleaned :: "string \<Rightarrow> string" where
  "cleaned raw = zfill 5 (re_sub_nondigit raw)"

subsection \<open>Session state and the click-processing cycle (lines 282-321, 386-389)\<close>

record session =
  selected_fips :: "string option"
  ignore_next_click :: bool

text \<open>Lines 282-285: both fields are created on the first run of a session.\<close>

definition init_session :: session where
  "init_session = \<lparr>selected_fips = None, ignore_next_click = False\<rparr>"

text \<open>
  Lines 314-317, the read phase. The argument is the value of
  \<^verbatim>\<open>map_state.get("last_object_clicked_popup")\<close>, \<open>None\<close> when \<^verbatim>\<open>map_state\<close> is
  empty or has no such entry. Python takes the branch only for a truthy value, that is
  a non-empty text.
\<close>

definition read_popup :: "string option \<Rightarrow> session \<Rightarrow> session" where
  "read_popup popup st =
     (case popup of
        None \<Rightarrow> st
      | Some raw \<Rightarrow>
          if raw \<noteq> [] \<and> \<not> ignore_next_click st
          then st\<lparr>selected_fips := Some (cleaned raw)\<rparr>
          else st)"

text \<open>Lines 320-321: the guard is cleared once the read phase is over.\<close>

definition clear_guard :: "session \<Rightarrow> session" where
  "clear_guard st = (if ignore_next_click st then st\<lparr>ignore_next_click := False\<rparr> else st)"

text \<open>One click-processing cycle: lines 313-321 of one run of the script.\<close>

definition process_click :: "string option \<Rightarrow> session \<Rightarrow> session" where
  "process_click popup st = clear_guard (read_popup popup st)"

text \<open>Lines 386-389: the handler of the clear button; the script is then run again.\<close>

definition clear_selection :: "session \<Rightarrow> session" where
  "clear_selection st = st\<lparr>selected_fips := None, ignore_next_click := True\<rparr>"

subsection \<open>Tables\<close>

text \<open>
  A cell of a table read from a file: a missing entry (pandas' NaN), a number, or a
  text that is not a number. An entry that \<^verbatim>\<open>pd.to_numeric\<close> reads as a number is
  represented by that number, so \<open>Text\<close> stands for the entries it cannot parse.
\<close>

datatype cell = NaN | Num real | Text string

text \<open>
  A data frame: its column names, in order and distinct, and its rows. A row gives a
  cell for every name; only the cells of the frame's columns mean anything.
\<close>

record frame =
  columns :: "string list"
  rows :: "(string \<Rightarrow> cell) list"

datatype error = KeyError string | MergeError | TypeOrValueError

definition is_text :: "cell \<Rightarrow> bool" where
  "is_text v = (case v of Text _ \<Rightarrow> True | _ \<Rightarrow> False)"


text \<open>\<^verbatim>\<open>pd.to_numeric(..., errors="coerce")\<close>: what does not parse becomes NaN.\<close>

definition to_numeric_coerce :: "cell \<Rightarrow> cell" where
  "to_numeric_coerce v = (case v of Text _ \<Rightarrow> NaN | _ \<Rightarrow> v)"

text \<open>\<^verbatim>\<open>.fillna(0)\<close>: only missing entries are replaced.\<close>

definition fillna0 :: "cell \<Rightarrow> cell" where
  "fillna0 v = (case v of NaN \<Rightarrow> Num 0 | _ \<Rightarrow> v)"

text \<open>
  \<^verbatim>\<open>frame[c] = series\<close>: an existing column is overwritten in place, a new one is
  appended. The new cell of each row is computed from the row.
\<close>

definition assign_column :: "string \<Rightarrow> ((string \<Rightarrow> cell) \<Rightarrow> cell) \<Rightarrow> frame \<Rightarrow> frame" where
  "assign_column c f g =
     \<lparr>columns = (if c \<in> set (columns g) then columns g else columns g @ [c]),
      rows = map (\<lambda>r. r(c := f r)) (rows g)\<rparr>"

subsection \<open>Join and fill (lines 248-252)\<close>

text \<open>
  \<^verbatim>\<open>left.merge(right, on=key, how="left")\<close>. Both frames must have the key column. A
  column other than the key that both frames have is renamed with the suffixes
  \<^verbatim>\<open>_x\<close> and \<^verbatim>\<open>_y\<close>; pandas raises \<^verbatim>\<open>MergeError\<close> when the renaming makes two
  labels of one side equal. It does not compare the two sides: a renamed label of one
  side may meet a label of the other, and the result then has that label twice. A row
  of the model holds one cell for a name, the left one; the loops below raise where
  they read such a label. Every left row is kept, in order: once for each right row
  with the same key, or once with the right columns missing when there is none.
\<close>

definition overlapping :: "string \<Rightarrow> frame \<Rightarrow> frame \<Rightarrow> string list" where
  "overlapping key L R = [c \<leftarrow> columns L. c \<noteq> key \<and> c \<in> set (columns R)]"

definition left_name :: "string list \<Rightarrow> string \<Rightarrow> string" where
  "left_name overlap c = (if c \<in> set overlap then c @ ''_x'' else c)"

definition right_name :: "string list \<Rightarrow> string \<Rightarrow> string" where
  "right_name overlap c = (if c \<in> set overlap then c @ ''_y'' else c)"

text \<open>
  The joined row of a left row \<open>l\<close> and a right row \<open>r\<close>: the left cells under the
  left names, then the right cells, the key apart, under the right names.
\<close>

definition glue ::
  "string \<Rightarrow> frame \<Rightarrow> frame \<Rightarrow> (string \<Rightarrow> cell) \<Rightarrow> (string \<Rightarrow> cell) \<Rightarrow> string \<Rightarrow> cell" where
  "glue key L R l r n =
     (case map_of (map (\<lambda>c. (left_name (overlapping key L R) c, l c)) (columns L) @
                   map (\<lambda>c. (right_name (overlapping key L R) c, r c))
                     [c \<leftarrow> columns R. c \<noteq> key]) n of
        Some v \<Rightarrow> v
      | None \<Rightarrow> NaN)"

text \<open>
  The right rows that a left row is joined with: those with its key, in order, or one
  row of missing entries when there is none.
\<close>

definition partners :: "string \<Rightarrow> frame \<Rightarrow> (string \<Rightarrow> cell) \<Rightarrow> (string \<Rightarrow> cell) list" where
  "partners key R l =
     (case [r \<leftarrow> rows R. r key = l key] of [] \<Rightarrow> [\<lambda>_. NaN] | m # ms \<Rightarrow> m # ms)"

definition merge_left :: "string \<Rightarrow> frame \<Rightarrow> frame \<Rightarrow> error + frame" where
  "merge_left key L R =
     (if key \<notin> set (columns L) \<or> key \<notin> set (columns R) then Inl (KeyError key)
      else if overlapping key L R \<noteq> [] \<and>
              (\<not> distinct (map (left_name (overlapping key L R)) (columns L)) \<or>
               \<not> distinct (map (right_name (overlapping key L R))
                               [c \<leftarrow> columns R. c \<noteq> key]))
      then Inl MergeError
      else Inr \<lparr>columns = map (left_name (overlapping key L R)) (columns L) @
                          map (right_name (overlapping key L R)) [c \<leftarrow> columns R. c \<noteq> key],
                rows = concat (map (\<lambda>l. map (glue key L R l) (partners key R l)) (rows L))\<rparr>)"

text \<open>Line 249.\<close>

definition num_cols :: "frame \<Rightarrow> string list" where
  "num_cols daily = [c \<leftarrow> columns daily. c \<noteq> ''diagnosis'' \<and> c \<noteq> ''county_fips'']"

text \<open>
  Lines 250-252: one pass of the loop, and the loop. Under a label that the frame has
  twice, \<^verbatim>\<open>gdf_joined[c]\<close> is a frame and not a series, and \<^verbatim>\<open>pd.to_numeric\<close> raises
  \<^verbatim>\<open>TypeError\<close>.
\<close>

definition fill_step :: "string \<Rightarrow> frame \<Rightarrow> error + frame" where
  "fill_step c g =
     (if c \<in> set (columns g)
      then (if 1 < count_list (columns g) c then Inl TypeOrValueError
            else Inr (assign_column c (\<lambda>r. fillna0 (to_numeric_coerce (r c))) g))
      else Inr g)"

fun fill_numeric :: "string list \<Rightarrow> frame \<Rightarrow> error + frame" where
  "fill_numeric [] g = Inr g"
| "fill_numeric (c # cols) g =
     (case fill_step c g of Inl e \<Rightarrow> Inl e | Inr g' \<Rightarrow> fill_numeric cols g')"

definition join_and_fill :: "frame \<Rightarrow> frame \<Rightarrow> error + frame" where
  "join_and_fill counties daily =
     (case merge_left ''county_fips'' counties daily of
        Inl e \<Rightarrow> Inl e
      | Inr g \<Rightarrow> fill_numeric (num_cols daily) g)"

subsection \<open>Display columns (lines 255-273)\<close>


text \<open>\<^verbatim>\<open>.round(0)\<close> rounds a half to the even neighbour.\<close>

definition round_half_even :: "real \<Rightarrow> int" where
  "round_half_even x =
     (let f = \<lfloor>x\<rfloor>; d = x - of_int f
      in if d < 1 / 2 then f
         else if 1 / 2 < d then f + 1
         else if even f then f else f + 1)"

text \<open>
  \<^verbatim>\<open>.astype(int)\<close> is a cast to a 64-bit integer. A rounded float outside the range
  of that type is cast without an exception: on x86-64 the result is the smallest
  64-bit integer.
\<close>

definition astype_int64 :: "int \<Rightarrow> int" where
  "astype_int64 k = (if - (2 ^ 63) \<le> k \<and> k < 2 ^ 63 then k else - (2 ^ 63))"

definition round_int :: "cell \<Rightarrow> cell" where
  "round_int v =
     (case v of Num x \<Rightarrow> Num (of_int (astype_int64 (round_half_even x))) | _ \<Rightarrow> v)"




subsection \<open>The diagnosis map's style function (lines 104-117)\<close>

text \<open>U+2265 and U+2264 in UTF-8.\<close>

definition geq_sign :: string where
  "geq_sign = [char_of (0xE2 :: nat), char_of (0x89 :: nat), char_of (0xA5 :: nat)]"

definition leq_sign :: string where
  "leq_sign = [char_of (0xE2 :: nat), char_of (0x89 :: nat), char_of (0xA4 :: nat)]"

definition label_near_capacity :: string where
  "label_near_capacity = ''Designated demand near supply capacity ('' @ geq_sign @ ''85%)''"

definition label_overflow :: string where
  "label_overflow = ''Enough for designated; overflow in undesignated (total > supply)''"

definition label_consistent :: string where
  "label_consistent =
     ''Enough for demand; consistent undesignated observed (total '' @ leq_sign @ '' supply)''"

definition label_none :: string where
  "label_none = ''No overflow observed''"

definition palette :: "(string \<times> string) list" where
  "palette =
     [(label_near_capacity, ''#f03b20''),
      (label_overflow, ''#fd8d3c''),
      (label_consistent, ''#feb24c''),
      (label_none, ''#74c476'')]"

record style =
  fillColor :: string
  color :: string
  weight :: real
  fillOpacity :: real

text \<open>
  The properties of a feature are a dictionary from names to values; a missing value
  is \<^verbatim>\<open>None\<close> there, written \<open>NaN\<close> here. \<^verbatim>\<open>palette.get(cat, "#8c8c8c")\<close> finds a
  colour only for a text that is one of the palette's keys.
\<close>

definition style_fn :: "string \<Rightarrow> (string \<rightharpoonup> cell) \<Rightarrow> style" where
  "style_fn category_col properties =
     (let cat = (case properties category_col of None \<Rightarrow> NaN | Some v \<Rightarrow> v);
          colour = (case cat of
                      Text s \<Rightarrow> (case map_of palette s of Some c \<Rightarrow> c | None \<Rightarrow> ''#8c8c8c'')
                    | _ \<Rightarrow> ''#8c8c8c'')
      in \<lparr>fillColor = colour, color = ''#555'', weight = 8 / 10, fillOpacity = 8 / 10\<rparr>)"

subsection \<open>Hourly aggregation (lines 329-353)\<close>

text \<open>
  A row of the hourly table as \<^verbatim>\<open>load_hourly\<close> returns it: the county is a text,
  the hour an integer, and the three numeric columns hold no missing entry
  (lines 58-61).
\<close>

record hourly_row =
  county :: string
  hour :: int
  des_demand :: real
  undes_demand :: real
  hourly_supply :: real

text \<open>A row of the table returned on line 353, its fields in the order of the columns.\<close>

record agg_row =
  agg_hour :: int
  agg_des_demand :: real
  agg_undes_demand :: real
  agg_supply :: cell

fun numbers :: "cell list \<Rightarrow> real list" where
  "numbers [] = []"
| "numbers (Num x # vs) = x # numbers vs"
| "numbers (_ # vs) = numbers vs"

text \<open>
  \<^verbatim>\<open>float(series.max())\<close> and \<^verbatim>\<open>float(series.sum())\<close>. Missing entries are skipped;
  the maximum of nothing is NaN and the sum of nothing is 0. On a series that holds a
  text that is not a number, pandas reduces with Python's own comparison and
  concatenation: the reduction or the conversion to \<^verbatim>\<open>float\<close> then raises. The
  numbers are reduced as numbers (see the conventions for a text column).
\<close>

definition series_max :: "cell list \<Rightarrow> error + cell" where
  "series_max vs =
     (if list_ex is_text vs then Inl TypeOrValueError
      else (case numbers vs of
              [] \<Rightarrow> Inr NaN
            | x # xs \<Rightarrow> Inr (Num (fold max xs x))))"

definition series_sum :: "cell list \<Rightarrow> error + cell" where
  "series_sum vs =
     (if list_ex is_text vs then Inl TypeOrValueError
      else Inr (Num (sum_list (numbers vs))))"

text \<open>Line 334.\<close>

definition county_supply :: "frame \<Rightarrow> string \<Rightarrow> error + cell" where
  "county_supply daily fips =
     (if ''county_fips'' \<notin> set (columns daily) then Inl (KeyError ''county_fips'')
      else if ''supply'' \<notin> set (columns daily) then Inl (KeyError ''supply'')
      else series_max
             (map fillna0 (map (\<lambda>r. r ''supply'')
                [r \<leftarrow> rows daily. r ''county_fips'' = Text fips])))"

text \<open>Line 339.\<close>

definition statewide_supply :: "frame \<Rightarrow> error + cell" where
  "statewide_supply daily =
     (if ''supply'' \<notin> set (columns daily) then Inl (KeyError ''supply'')
      else series_sum (map fillna0 (map (\<lambda>r. r ''supply'') (rows daily))))"

text \<open>
  Lines 342-343: \<^verbatim>\<open>groupby("hour", as_index=False)[...].sum()\<close> gives one row for each
  hour that occurs, in ascending order, and the supply column is the constant.
\<close>

definition aggregate :: "hourly_row list \<Rightarrow> cell \<Rightarrow> agg_row list" where
  "aggregate sub supply_const =
     map (\<lambda>h. \<lparr>agg_hour = h,
               agg_des_demand = sum_list (map des_demand [r \<leftarrow> sub. hour r = h]),
               agg_undes_demand = sum_list (map undes_demand [r \<leftarrow> sub. hour r = h]),
               agg_supply = supply_const\<rparr>)
         (sort (remdups (map hour sub)))"

text \<open>
  \<^verbatim>\<open>hourly_long\<close>. Its free variables \<^verbatim>\<open>daily\<close> and \<^verbatim>\<open>fips_to_name\<close> are the first
  two arguments. The result is the title and the wide table; the long form for the
  chart, which no statement below is about, is left out.
\<close>

definition hourly_long ::
  "frame \<Rightarrow> (string \<rightharpoonup> string) \<Rightarrow> hourly_row list \<Rightarrow> string option \<Rightarrow>
   error + (string \<times> agg_row list)" where
  "hourly_long daily fips_to_name df_hourly fips =
     (let statewide =
            (case statewide_supply daily of
               Inl e \<Rightarrow> Inl e
             | Inr supply_const \<Rightarrow>
                 Inr (''Indiana (statewide)'', aggregate df_hourly supply_const));
          selected = (\<lambda>f.
            (case county_supply daily f of
               Inl e \<Rightarrow> Inl e
             | Inr supply_const \<Rightarrow>
                 Inr ((case fips_to_name f of Some name \<Rightarrow> name | None \<Rightarrow> ''County '' @ f),
                      aggregate [r \<leftarrow> df_hourly. county r = f] supply_const)))
      in case fips of
           None \<Rightarrow> statewide
         | Some f \<Rightarrow> if f \<noteq> [] then selected f else statewide)"

subsection \<open>The download (lines 355, 393)\<close>

text \<open>
  \<^verbatim>\<open>hourly_table.to_csv(index=False)\<close>: a header with the column names, then one record
  for each row, its fields in the order of the columns. The hour is written as an
  integer and the other three as floats, by pandas' own formatting, which is not
  modelled: a field is the value that is written.
\<close>

datatype field = IntField int | FloatField cell

record csv =
  header :: "string list"
  records :: "field list list"

definition to_csv :: "agg_row list \<Rightarrow> csv" where
  "to_csv hourly_table =
     \<lparr>header = [''hour'', ''des_demand'', ''undes_demand'', ''supply''],
      records = map (\<lambda>r. [IntField (agg_hour r),
                          FloatField (Num (agg_des_demand r)),
                          FloatField (Num (agg_undes_demand r)),
                          FloatField (agg_supply r)]) hourly_table\<rparr>"

definition download_csv ::
  "frame \<Rightarrow> (string \<rightharpoonup> string) \<Rightarrow> hourly_row list \<Rightarrow> session \<Rightarrow> error + csv" where
  "download_csv daily fips_to_name hourly st =
     (case hourly_long daily fips_to_name hourly (selected_fips st) of
        Inl e \<Rightarrow> Inl e
      | Inr (title, hourly_table) \<Rightarrow> Inr (to_csv hourly_table))"

subsection \<open>A small data set\<close>


definition example_daily :: frame where
  "example_daily =
     \<lparr>columns = [''county_fips'', ''supply'', ''acc_des_demand'', ''diagnosis''],
      rows = [(\<lambda>_. NaN)(''county_fips'' := Text ''18097'', ''supply'' := Num 7,
                          ''acc_des_demand'' := Text ''n/a'',
                          ''diagnosis'' := Text label_none),
              (\<lambda>_. NaN)(''county_fips'' := Text ''18003'', ''supply'' := Num (5 / 2),
                          ''acc_des_demand'' := Num (7 / 2),
                          ''diagnosis'' := Text label_overflow)]\<rparr>"

definition example_hourly :: "hourly_row list" where
  "example_hourly =
     [\<lparr>county = ''18097'', hour = 1, des_demand = 1 / 2, undes_demand = 1, hourly_supply = 7\<rparr>,
      \<lparr>county = ''18097'', hour = 0, des_demand = 2, undes_demand = 1, hourly_supply = 7\<rparr>,
      \<lparr>county = ''18001'', hour = 1, des_demand = 3, undes_demand = 1, hourly_supply = 0\<rparr>,
      \<lparr>county = ''18097'', hour = 1, des_demand = 1 / 4, undes_demand = 1, hourly_supply = 7\<rparr>]"


section \<open>Properties\<close>

subsection \<open>The sanitiser\<close>

lemma is_digit_zero: "is_digit (CHR ''0'')"
  by (simp add: is_digit_def)

lemma sign_not_digit: "is_digit c \<Longrightarrow> c \<noteq> CHR ''+'' \<and> c \<noteq> CHR ''-''"
  by (auto simp: is_digit_def)

lemma zfill_digits:
  assumes "\<forall>c\<in>set ds. is_digit c"
  shows "zfill w ds = replicate (w - length ds) (CHR ''0'') @ ds"
proof (cases ds)
  case Nil
  then show ?thesis by (simp add: zfill_def)
next
  case (Cons c cs)
  with assms have "c \<noteq> CHR ''+''" "c \<noteq> CHR ''-''"
    using sign_not_digit by auto
  with Cons show ?thesis by (simp add: zfill_def)
qed

lemma cleaned_eq:
  "cleaned raw = replicate (5 - length (filter is_digit raw)) (CHR ''0'') @ filter is_digit raw"
  unfolding cleaned_def re_sub_nondigit_def by (rule zfill_digits) simp

lemma cleaned_length: "5 \<le> length (cleaned raw)"
  by (simp add: cleaned_eq)

lemma cleaned_digits: "c \<in> set (cleaned raw) \<Longrightarrow> is_digit c"
  by (auto simp: cleaned_eq is_digit_zero)

subsection \<open>One cycle\<close>

lemma process_click_fresh:
  "\<not> ignore_next_click st \<Longrightarrow> raw \<noteq> [] \<Longrightarrow>
   process_click (Some raw) st = st\<lparr>selected_fips := Some (cleaned raw)\<rparr>"
  by (simp add: process_click_def read_popup_def clear_guard_def)

lemma process_click_guarded:
  "ignore_next_click st \<Longrightarrow> process_click popup st = st\<lparr>ignore_next_click := False\<rparr>"
  by (simp add: process_click_def read_popup_def clear_guard_def split: option.splits)

lemma process_click_after_clear: "process_click popup (clear_selection st) = init_session"
  by (simp add: process_click_guarded clear_selection_def init_session_def)

text \<open>
  C1. The clear action empties the selection and raises the guard. The cycle that
  follows ignores whatever popup text it finds, stale or not, and leaves the guard
  down; the cycle after it takes a click as usual. A cycle that starts with the guard
  up always ends with the guard down, with or without a click.
\<close>

theorem clear_suppresses_next_cycle_only:
  "selected_fips (clear_selection st) = None \<and>
   ignore_next_click (clear_selection st) \<and>
   selected_fips (process_click stale (clear_selection st)) = None \<and>
   \<not> ignore_next_click (process_click stale (clear_selection st)) \<and>
   (raw \<noteq> [] \<longrightarrow>
      selected_fips (process_click (Some raw) (process_click stale (clear_selection st)))
        = Some (cleaned raw)) \<and>
   (ignore_next_click st' \<longrightarrow> \<not> ignore_next_click (process_click popup st'))"
proof -
  have after: "process_click stale (clear_selection st) = init_session"
    by (rule process_click_after_clear)
  have fresh: "\<not> ignore_next_click init_session"
    by (simp add: init_session_def)
  have "raw \<noteq> [] \<longrightarrow> selected_fips (process_click (Some raw) init_session) = Some (cleaned raw)"
    using fresh by (simp add: process_click_fresh)
  moreover have "ignore_next_click st' \<longrightarrow> \<not> ignore_next_click (process_click popup st')"
    by (simp add: process_click_guarded)
  moreover have "selected_fips init_session = None"
    by (simp add: init_session_def)
  ultimately show ?thesis
    using fresh by (simp add: after) (simp add: clear_selection_def)
qed

theorem clear_suppresses_next_cycle_only_witness:
  "''IN-18001'' \<noteq> [] \<and>
   selected_fips (process_click (Some ''18097'')
      (clear_selection \<lparr>selected_fips = Some ''18097'', ignore_next_click = False\<rparr>)) = None \<and>
   selected_fips (process_click (Some ''IN-18001'') (process_click (Some ''18097'')
      (clear_selection \<lparr>selected_fips = Some ''18097'', ignore_next_click = False\<rparr>)))
     = Some ''18001'' \<and>
   ignore_next_click \<lparr>selected_fips = None, ignore_next_click = True\<rparr> \<and>
   \<not> ignore_next_click (process_click None \<lparr>selected_fips = None, ignore_next_click = True\<rparr>)"
  using clear_suppresses_next_cycle_only
    [of "\<lparr>selected_fips = Some ''18097'', ignore_next_click = False\<rparr>" "Some ''18097''"
        "''IN-18001''" "\<lparr>selected_fips = None, ignore_next_click = True\<rparr>" None]
  by (simp add: cleaned_def re_sub_nondigit_def zfill_def is_digit_def)

text \<open>
  C2. With the guard down, a click with a non-empty popup text sets the selection to
  the digits of the text, in order, with zeros on the left up to five characters.
\<close>

theorem click_sets_cleaned:
  "\<not> ignore_next_click st \<Longrightarrow> raw \<noteq> [] \<Longrightarrow>
   selected_fips (process_click (Some raw) st) =
     Some (replicate (5 - length (filter is_digit raw)) (CHR ''0'') @ filter is_digit raw)"
  by (simp add: process_click_fresh cleaned_eq)

theorem click_sets_cleaned_witness:
  "\<not> ignore_next_click init_session \<and> ''IN-18097'' \<noteq> [] \<and>
   selected_fips (process_click (Some ''IN-18097'') init_session) = Some ''18097''"
  using click_sets_cleaned [of init_session "''IN-18097''"]
  by (simp add: init_session_def is_digit_def)

text \<open>
  C9. With the guard down, the selection set by a non-empty popup text has at least
  five characters, all of them digits: it is \<open>00000\<close> for a text with no digit, and
  all the digits of the text when there are more than five.
\<close>

theorem click_selection_shape:
  "\<not> ignore_next_click st \<Longrightarrow> raw \<noteq> [] \<Longrightarrow>
   \<exists>sel. selected_fips (process_click (Some raw) st) = Some sel \<and>
     5 \<le> length sel \<and> (\<forall>c\<in>set sel. is_digit c) \<and>
     (filter is_digit raw = [] \<longrightarrow> sel = ''00000'') \<and>
     (5 < length (filter is_digit raw) \<longrightarrow> sel = filter is_digit raw)"
proof -
  assume "\<not> ignore_next_click st" and "raw \<noteq> []"
  then have sel: "selected_fips (process_click (Some raw) st) = Some (cleaned raw)"
    by (simp add: process_click_fresh)
  have none: "filter is_digit raw = [] \<longrightarrow> cleaned raw = ''00000''"
    by (simp add: cleaned_eq numeral_eq_Suc)
  have many: "5 < length (filter is_digit raw) \<longrightarrow> cleaned raw = filter is_digit raw"
    by (simp add: cleaned_eq)
  show ?thesis
    using sel none many cleaned_length cleaned_digits by blast
qed

theorem click_selection_shape_witness:
  "\<not> ignore_next_click init_session \<and>
   selected_fips (process_click (Some ''n/a'') init_session) = Some ''00000'' \<and>
   selected_fips (process_click (Some ''fips 1809712'') init_session) = Some ''1809712''"
proof -
  have fresh: "\<not> ignore_next_click init_session"
    by (simp add: init_session_def)
  have d1: "filter is_digit ''n/a'' = []"
    by (simp add: is_digit_def)
  have d2: "filter is_digit ''fips 1809712'' = ''1809712''"
    by (simp add: is_digit_def)
  from click_selection_shape [OF fresh, of "''n/a''"] d1
  have "selected_fips (process_click (Some ''n/a'') init_session) = Some ''00000''"
    by auto
  moreover from click_selection_shape [OF fresh, of "''fips 1809712''"] d2
  have "selected_fips (process_click (Some ''fips 1809712'') init_session) = Some ''1809712''"
    by auto
  ultimately show ?thesis using fresh by simp
qed


subsection \<open>The style function\<close>

lemma palette_lookup:
  "map_of palette label_near_capacity = Some ''#f03b20''"
  "map_of palette label_overflow = Some ''#fd8d3c''"
  "map_of palette label_consistent = Some ''#feb24c''"
  "map_of palette label_none = Some ''#74c476''"
  by (simp_all add: palette_def label_near_capacity_def label_overflow_def
      label_consistent_def label_none_def)

lemma palette_keys:
  "map_of palette s = None \<longleftrightarrow>
     s \<notin> {label_near_capacity, label_overflow, label_consistent, label_none}"
  by (simp add: palette_def)

text \<open>
  C8. The style function of the diagnosis map gives each of the four known labels its
  colour of the palette, and the grey \<open>#8c8c8c\<close> to every other value of the
  diagnosis: another text, a number, a missing value or no entry at all.
\<close>

theorem style_fn_colours:
  "(properties category_col = Some (Text label_near_capacity) \<longrightarrow>
      fillColor (style_fn category_col properties) = ''#f03b20'') \<and>
   (properties category_col = Some (Text label_overflow) \<longrightarrow>
      fillColor (style_fn category_col properties) = ''#fd8d3c'') \<and>
   (properties category_col = Some (Text label_consistent) \<longrightarrow>
      fillColor (style_fn category_col properties) = ''#feb24c'') \<and>
   (properties category_col = Some (Text label_none) \<longrightarrow>
      fillColor (style_fn category_col properties) = ''#74c476'') \<and>
   ((\<forall>l \<in> {label_near_capacity, label_overflow, label_consistent, label_none}.
       properties category_col \<noteq> Some (Text l)) \<longrightarrow>
      fillColor (style_fn category_col properties) = ''#8c8c8c'')"
proof -
  have other: "fillColor (style_fn category_col properties) = ''#8c8c8c''"
    if "\<forall>l \<in> {label_near_capacity, label_overflow, label_consistent, label_none}.
          properties category_col \<noteq> Some (Text l)"
  proof (cases "properties category_col")
    case None
    then show ?thesis by (simp add: style_fn_def)
  next
    case (Some v)
    show ?thesis
    proof (cases v)
      case (Text s)
      with Some that have "map_of palette s = None"
        by (auto simp: palette_keys)
      with Some Text show ?thesis by (simp add: style_fn_def)
    qed (simp_all add: Some style_fn_def)
  qed
  show ?thesis
    using other by (simp add: style_fn_def palette_lookup)
qed

theorem style_fn_colours_witness:
  "fillColor (style_fn ''diagnosis'' [''diagnosis'' \<mapsto> Text label_near_capacity]) = ''#f03b20'' \<and>
   fillColor (style_fn ''diagnosis'' [''diagnosis'' \<mapsto> Text label_overflow]) = ''#fd8d3c'' \<and>
   fillColor (style_fn ''diagnosis'' [''diagnosis'' \<mapsto> Text label_consistent]) = ''#feb24c'' \<and>
   fillColor (style_fn ''diagnosis'' [''diagnosis'' \<mapsto> Text label_none]) = ''#74c476'' \<and>
   fillColor (style_fn ''diagnosis'' [''diagnosis'' \<mapsto> Text ''Unknown'']) = ''#8c8c8c'' \<and>
   fillColor (style_fn ''diagnosis'' [''diagnosis'' \<mapsto> NaN]) = ''#8c8c8c'' \<and>
   fillColor (style_fn ''diagnosis'' Map.empty) = ''#8c8c8c''"
  using style_fn_colours [of "[''diagnosis'' \<mapsto> Text label_near_capacity]" "''diagnosis''"]
    style_fn_colours [of "[''diagnosis'' \<mapsto> Text label_overflow]" "''diagnosis''"]
    style_fn_colours [of "[''diagnosis'' \<mapsto> Text label_consistent]" "''diagnosis''"]
    style_fn_colours [of "[''diagnosis'' \<mapsto> Text label_none]" "''diagnosis''"]
    style_fn_colours [of "[''diagnosis'' \<mapsto> Text ''Unknown'']" "''diagnosis''"]
    style_fn_colours [of "[''diagnosis'' \<mapsto> NaN]" "''diagnosis''"]
    style_fn_colours [of "Map.empty" "''diagnosis''"]
  by (simp add: label_near_capacity_def label_overflow_def label_consistent_def label_none_def)


subsection \<open>Reductions of a series\<close>

lemma numbers_fillna0:
  "\<not> list_ex is_text vs \<Longrightarrow>
   numbers (map fillna0 vs) = map (\<lambda>v. case v of Num x \<Rightarrow> x | _ \<Rightarrow> 0) vs"
  by (induction vs rule: numbers.induct) (simp_all add: fillna0_def is_text_def)

lemma is_text_fillna0: "is_text (fillna0 v) = is_text v"
  by (cases v) (simp_all add: fillna0_def is_text_def)

lemma list_ex_text_fillna0: "list_ex is_text (map fillna0 vs) = list_ex is_text vs"
  by (induction vs) (simp_all add: is_text_fillna0)

lemma series_max_empty: "series_max [] = Inr NaN"
  by (simp add: series_max_def)

lemma series_max_single: "\<not> is_text v \<Longrightarrow> series_max [fillna0 v] = Inr (fillna0 v)"
  by (cases v) (simp_all add: series_max_def fillna0_def is_text_def)

lemma series_sum_filled:
  "\<not> list_ex is_text vs \<Longrightarrow>
   series_sum (map fillna0 vs) = Inr (Num (\<Sum>v\<leftarrow>vs. case v of Num x \<Rightarrow> x | _ \<Rightarrow> 0))"
  by (simp add: series_sum_def list_ex_text_fillna0 numbers_fillna0)

subsection \<open>The grouped table\<close>

lemma aggregate_hours: "map agg_hour (aggregate sub sc) = sort (remdups (map hour sub))"
  by (simp add: aggregate_def comp_def)

lemma aggregate_distinct: "distinct (map agg_hour (aggregate sub sc))"
  by (simp add: aggregate_hours)

lemma aggregate_sorted: "sorted (map agg_hour (aggregate sub sc))"
  by (simp add: aggregate_hours)

lemma aggregate_hour_set: "agg_hour ` set (aggregate sub sc) = hour ` set sub"
proof -
  have "agg_hour ` set (aggregate sub sc) = set (map agg_hour (aggregate sub sc))"
    by simp
  also have "\<dots> = hour ` set sub"
    by (simp only: aggregate_hours) simp
  finally show ?thesis .
qed

lemma aggregate_row:
  assumes "row \<in> set (aggregate sub sc)"
  shows "agg_des_demand row = (\<Sum>r\<leftarrow>[r \<leftarrow> sub. hour r = agg_hour row]. des_demand r)"
    and "agg_undes_demand row = (\<Sum>r\<leftarrow>[r \<leftarrow> sub. hour r = agg_hour row]. undes_demand r)"
    and "agg_supply row = sc"
  using assms by (auto simp: aggregate_def)

lemma filter_county_hour:
  "[r \<leftarrow> [r \<leftarrow> hourly. county r = f]. hour r = h] = [r \<leftarrow> hourly. county r = f \<and> hour r = h]"
  by (simp add: conj_commute)

subsection \<open>The supply constant\<close>

lemma county_supply_unique:
  assumes "''county_fips'' \<in> set (columns daily)" and "''supply'' \<in> set (columns daily)"
    and "[r \<leftarrow> rows daily. r ''county_fips'' = Text fips] = [d]"
    and "\<not> is_text (d ''supply'')"
  shows "county_supply daily fips = Inr (fillna0 (d ''supply''))"
  using assms by (simp add: county_supply_def series_max_single)

lemma county_supply_absent:
  assumes "''county_fips'' \<in> set (columns daily)" and "''supply'' \<in> set (columns daily)"
    and "\<forall>r\<in>set (rows daily). r ''county_fips'' \<noteq> Text fips"
  shows "county_supply daily fips = Inr NaN"
proof -
  from assms(3) have "[r \<leftarrow> rows daily. r ''county_fips'' = Text fips] = []"
    by (simp add: filter_empty_conv)
  with assms(1,2) show ?thesis
    by (simp add: county_supply_def series_max_empty)
qed

lemma statewide_supply_numeric:
  assumes "''supply'' \<in> set (columns daily)"
    and "\<forall>r\<in>set (rows daily). \<not> is_text (r ''supply'')"
  shows "statewide_supply daily =
           Inr (Num (\<Sum>r\<leftarrow>rows daily. case r ''supply'' of Num x \<Rightarrow> x | _ \<Rightarrow> 0))"
proof -
  from assms(2) have "\<not> list_ex is_text (map (\<lambda>r. r ''supply'') (rows daily))"
    by (simp add: list_ex_iff)
  then have "series_sum (map fillna0 (map (\<lambda>r. r ''supply'') (rows daily))) =
      Inr (Num (\<Sum>v\<leftarrow>map (\<lambda>r. r ''supply'') (rows daily). case v of Num x \<Rightarrow> x | _ \<Rightarrow> 0))"
    by (rule series_sum_filled)
  with assms(1) show ?thesis
    by (simp add: statewide_supply_def comp_def)
qed

lemma hourly_long_Some:
  "f \<noteq> [] \<Longrightarrow> county_supply daily f = Inr sc \<Longrightarrow>
   hourly_long daily names hourly (Some f) =
     Inr ((case names f of Some name \<Rightarrow> name | None \<Rightarrow> ''County '' @ f),
          aggregate [r \<leftarrow> hourly. county r = f] sc)"
  by (simp add: hourly_long_def)

lemma hourly_long_None:
  "statewide_supply daily = Inr sc \<Longrightarrow>
   hourly_long daily names hourly None = Inr (''Indiana (statewide)'', aggregate hourly sc)"
  by (simp add: hourly_long_def)

text \<open>
  C3. For a selected county that has one row in the daily table, with a supply that
  is a number or missing, the aggregation returns a table with one row for each hour
  that occurs among the county's hourly rows, and no other. Each row holds the sums of
  the county's designated and undesignated demand in that hour, and the same supply:
  the county's supply in the daily table (0 when it is missing).
\<close>

theorem hourly_long_selected:
  assumes "fips \<noteq> []"
    and "''county_fips'' \<in> set (columns daily)" and "''supply'' \<in> set (columns daily)"
    and "[r \<leftarrow> rows daily. r ''county_fips'' = Text fips] = [d]"
    and "\<not> is_text (d ''supply'')"
  shows "\<exists>title tbl. hourly_long daily names hourly (Some fips) = Inr (title, tbl) \<and>
      distinct (map agg_hour tbl) \<and>
      set (map agg_hour tbl) = {hour r | r. r \<in> set hourly \<and> county r = fips} \<and>
      (\<forall>row\<in>set tbl.
         agg_des_demand row =
           (\<Sum>r\<leftarrow>[r \<leftarrow> hourly. county r = fips \<and> hour r = agg_hour row]. des_demand r) \<and>
         agg_undes_demand row =
           (\<Sum>r\<leftarrow>[r \<leftarrow> hourly. county r = fips \<and> hour r = agg_hour row]. undes_demand r) \<and>
         agg_supply row = fillna0 (d ''supply''))"
proof -
  let ?sub = "[r \<leftarrow> hourly. county r = fips]"
  let ?tbl = "aggregate ?sub (fillna0 (d ''supply''))"
  have sc: "county_supply daily fips = Inr (fillna0 (d ''supply''))"
    using assms(2-5) by (rule county_supply_unique)
  have run: "hourly_long daily names hourly (Some fips) =
      Inr ((case names fips of Some name \<Rightarrow> name | None \<Rightarrow> ''County '' @ fips), ?tbl)"
    using assms(1) sc by (rule hourly_long_Some)
  have hours: "set (map agg_hour ?tbl) = {hour r | r. r \<in> set hourly \<and> county r = fips}"
    by (simp add: aggregate_hour_set) auto
  have rows: "\<forall>row\<in>set ?tbl.
      agg_des_demand row =
        (\<Sum>r\<leftarrow>[r \<leftarrow> hourly. county r = fips \<and> hour r = agg_hour row]. des_demand r) \<and>
      agg_undes_demand row =
        (\<Sum>r\<leftarrow>[r \<leftarrow> hourly. county r = fips \<and> hour r = agg_hour row]. undes_demand r) \<and>
      agg_supply row = fillna0 (d ''supply'')"
    using aggregate_row [of _ ?sub "fillna0 (d ''supply'')"]
    by (simp add: filter_county_hour)
  show ?thesis
    using run aggregate_distinct hours rows by blast
qed


lemma example_daily_cols:
  "''county_fips'' \<in> set (columns example_daily)" "''supply'' \<in> set (columns example_daily)"
  by (simp_all add: example_daily_def)

lemma example_selected_run:
  "hourly_long example_daily Map.empty example_hourly (Some ''18097'') =
     Inr (''County 18097'',
          [\<lparr>agg_hour = 0, agg_des_demand = 2, agg_undes_demand = 1, agg_supply = Num 7\<rparr>,
           \<lparr>agg_hour = 1, agg_des_demand = 3 / 4, agg_undes_demand = 2, agg_supply = Num 7\<rparr>])"
  by (simp add: hourly_long_def county_supply_def series_max_def example_daily_def
      fillna0_def is_text_def aggregate_def example_hourly_def)

lemma example_unknown_run:
  "hourly_long example_daily Map.empty example_hourly (Some ''18001'') =
     Inr (''County 18001'',
          [\<lparr>agg_hour = 1, agg_des_demand = 3, agg_undes_demand = 1, agg_supply = NaN\<rparr>])"
  by (simp add: hourly_long_def county_supply_def series_max_def example_daily_def
      fillna0_def is_text_def aggregate_def example_hourly_def)

lemma example_statewide_run:
  "hourly_long example_daily Map.empty example_hourly None =
     Inr (''Indiana (statewide)'',
          [\<lparr>agg_hour = 0, agg_des_demand = 2, agg_undes_demand = 1, agg_supply = Num (19 / 2)\<rparr>,
           \<lparr>agg_hour = 1, agg_des_demand = 15 / 4, agg_undes_demand = 3,
            agg_supply = Num (19 / 2)\<rparr>])"
  by (simp add: hourly_long_def statewide_supply_def series_sum_def example_daily_def
      fillna0_def is_text_def aggregate_def example_hourly_def)


theorem hourly_long_selected_witness:
  "''18097'' \<noteq> [] \<and>
   ''county_fips'' \<in> set (columns example_daily) \<and>
   ''supply'' \<in> set (columns example_daily) \<and>
   [r \<leftarrow> rows example_daily. r ''county_fips'' = Text ''18097''] = [hd (rows example_daily)] \<and>
   \<not> is_text (hd (rows example_daily) ''supply'') \<and>
   (\<exists>title tbl.
      hourly_long example_daily Map.empty example_hourly (Some ''18097'') = Inr (title, tbl) \<and>
      map agg_hour tbl = [0, 1] \<and> map agg_des_demand tbl = [2, 3 / 4] \<and>
      map agg_undes_demand tbl = [1, 2] \<and> map agg_supply tbl = [Num 7, Num 7])"
proof -
  have h1: "''18097'' \<noteq> []" by simp
  have h4: "[r \<leftarrow> rows example_daily. r ''county_fips'' = Text ''18097'']
              = [hd (rows example_daily)]"
    by (simp add: example_daily_def)
  have h5: "\<not> is_text (hd (rows example_daily) ''supply'')"
    by (simp add: example_daily_def is_text_def)
  from hourly_long_selected [OF h1 example_daily_cols h4 h5, of Map.empty example_hourly]
  obtain title tbl where
    run: "hourly_long example_daily Map.empty example_hourly (Some ''18097'') = Inr (title, tbl)"
    and "distinct (map agg_hour tbl)"
    and "set (map agg_hour tbl) = {hour r | r. r \<in> set example_hourly \<and> county r = ''18097''}"
    and "\<forall>row\<in>set tbl.
      agg_des_demand row =
        (\<Sum>r\<leftarrow>[r \<leftarrow> example_hourly. county r = ''18097'' \<and> hour r = agg_hour row].
           des_demand r) \<and>
      agg_undes_demand row =
        (\<Sum>r\<leftarrow>[r \<leftarrow> example_hourly. county r = ''18097'' \<and> hour r = agg_hour row].
           undes_demand r) \<and>
      agg_supply row = fillna0 (hd (rows example_daily) ''supply'')"
    by (elim exE conjE) (rule that)
  from run have tbl: "tbl =
      [\<lparr>agg_hour = 0, agg_des_demand = 2, agg_undes_demand = 1, agg_supply = Num 7\<rparr>,
       \<lparr>agg_hour = 1, agg_des_demand = 3 / 4, agg_undes_demand = 2, agg_supply = Num 7\<rparr>]"
    unfolding example_selected_run by simp
  have "map agg_hour tbl = [0, 1]" "map agg_des_demand tbl = [2, 3 / 4]"
    "map agg_undes_demand tbl = [1, 2]" "map agg_supply tbl = [Num 7, Num 7]"
    by (simp_all add: tbl)
  with run have ex: "\<exists>title tbl.
      hourly_long example_daily Map.empty example_hourly (Some ''18097'') = Inr (title, tbl) \<and>
      map agg_hour tbl = [0, 1] \<and> map agg_des_demand tbl = [2, 3 / 4] \<and>
      map agg_undes_demand tbl = [1, 2] \<and> map agg_supply tbl = [Num 7, Num 7]"
    by (intro exI conjI)
  from h1 example_daily_cols h4 h5 ex show ?thesis
    by (intro conjI)
qed

text \<open>
  C4. With no county selected and a numeric supply column in the daily table, the
  aggregation groups the whole hourly table by hour, sums both demands over all
  counties, and gives every row the same supply: the sum of the supply of all rows of
  the daily table, a missing one counting as 0.
\<close>

theorem hourly_long_statewide:
  assumes "''supply'' \<in> set (columns daily)"
    and "\<forall>r\<in>set (rows daily). \<not> is_text (r ''supply'')"
  shows "\<exists>tbl. hourly_long daily names hourly None = Inr (''Indiana (statewide)'', tbl) \<and>
      distinct (map agg_hour tbl) \<and>
      set (map agg_hour tbl) = hour ` set hourly \<and>
      (\<forall>row\<in>set tbl.
         agg_des_demand row = (\<Sum>r\<leftarrow>[r \<leftarrow> hourly. hour r = agg_hour row]. des_demand r) \<and>
         agg_undes_demand row = (\<Sum>r\<leftarrow>[r \<leftarrow> hourly. hour r = agg_hour row]. undes_demand r) \<and>
         agg_supply row =
           Num (\<Sum>r\<leftarrow>rows daily. case r ''supply'' of Num x \<Rightarrow> x | _ \<Rightarrow> 0))"
proof -
  let ?sc = "Num (\<Sum>r\<leftarrow>rows daily. case r ''supply'' of Num x \<Rightarrow> x | _ \<Rightarrow> 0)"
  have "statewide_supply daily = Inr ?sc"
    using assms by (rule statewide_supply_numeric)
  then have run: "hourly_long daily names hourly None =
      Inr (''Indiana (statewide)'', aggregate hourly ?sc)"
    by (rule hourly_long_None)
  have hours: "set (map agg_hour (aggregate hourly ?sc)) = hour ` set hourly"
    by (simp add: aggregate_hour_set)
  have rows: "\<forall>row\<in>set (aggregate hourly ?sc).
      agg_des_demand row = (\<Sum>r\<leftarrow>[r \<leftarrow> hourly. hour r = agg_hour row]. des_demand r) \<and>
      agg_undes_demand row = (\<Sum>r\<leftarrow>[r \<leftarrow> hourly. hour r = agg_hour row]. undes_demand r) \<and>
      agg_supply row = ?sc"
    using aggregate_row [of _ hourly ?sc] by simp
  from run aggregate_distinct hours rows show ?thesis
    by (intro exI conjI)
qed

theorem hourly_long_statewide_witness:
  "''supply'' \<in> set (columns example_daily) \<and>
   list_all (\<lambda>r. \<not> is_text (r ''supply'')) (rows example_daily) \<and>
   (\<exists>tbl. hourly_long example_daily Map.empty example_hourly None
             = Inr (''Indiana (statewide)'', tbl) \<and>
      map agg_hour tbl = [0, 1] \<and> map agg_des_demand tbl = [2, 15 / 4] \<and>
      map agg_undes_demand tbl = [1, 3] \<and>
      map agg_supply tbl = [Num (7 + 5 / 2), Num (7 + 5 / 2)])"
proof -
  have h2: "\<forall>r\<in>set (rows example_daily). \<not> is_text (r ''supply'')"
    by (simp add: example_daily_def is_text_def)
  from hourly_long_statewide [OF example_daily_cols(2) h2, of Map.empty example_hourly]
  obtain tbl where
    run: "hourly_long example_daily Map.empty example_hourly None
            = Inr (''Indiana (statewide)'', tbl)"
    by (elim exE conjE)
  from run have tbl: "tbl =
      [\<lparr>agg_hour = 0, agg_des_demand = 2, agg_undes_demand = 1, agg_supply = Num (19 / 2)\<rparr>,
       \<lparr>agg_hour = 1, agg_des_demand = 15 / 4, agg_undes_demand = 3,
        agg_supply = Num (19 / 2)\<rparr>]"
    unfolding example_statewide_run by simp
  have "map agg_hour tbl = [0, 1]" "map agg_des_demand tbl = [2, 15 / 4]"
    "map agg_undes_demand tbl = [1, 3]"
    "map agg_supply tbl = [Num (7 + 5 / 2), Num (7 + 5 / 2)]"
    by (simp_all add: tbl)
  with run have ex: "\<exists>tbl. hourly_long example_daily Map.empty example_hourly None
        = Inr (''Indiana (statewide)'', tbl) \<and>
      map agg_hour tbl = [0, 1] \<and> map agg_des_demand tbl = [2, 15 / 4] \<and>
      map agg_undes_demand tbl = [1, 3] \<and>
      map agg_supply tbl = [Num (7 + 5 / 2), Num (7 + 5 / 2)]"
    by (intro exI conjI)
  have all: "list_all (\<lambda>r. \<not> is_text (r ''supply'')) (rows example_daily)"
    using h2 by (simp add: list_all_iff)
  from example_daily_cols(2) all ex show ?thesis
    by (intro conjI)
qed


subsection \<open>The download\<close>

lemma download_csv_run:
  "hourly_long daily names hourly (selected_fips st) = Inr (title, tbl) \<Longrightarrow>
   download_csv daily names hourly st = Inr (to_csv tbl)"
  by (simp add: download_csv_def)

lemma hourly_long_result:
  assumes "hourly_long daily names hourly fips = Inr (title, tbl)"
  shows "\<exists>sc. tbl = aggregate (case fips of
                                None \<Rightarrow> hourly
                              | Some f \<Rightarrow> if f \<noteq> [] then [r \<leftarrow> hourly. county r = f] else hourly) sc"
  using assms
  by (auto simp: hourly_long_def split: option.splits if_splits sum.splits)

lemma to_csv_records_supply:
  assumes "\<forall>row\<in>set tbl. agg_supply row = sc"
  shows "\<forall>rec\<in>set (records (to_csv tbl)). length rec = 4 \<and> rec ! 3 = FloatField sc"
  using assms by (auto simp: to_csv_def)

text \<open>
  C10. When the selected county has no row in the daily table, the supply constant is
  the maximum of an empty series, NaN and not 0: every row of the table returned by
  the aggregation, and every record of the download, carries NaN as its supply.
\<close>

theorem unknown_county_supply_nan:
  assumes "fips \<noteq> []"
    and "''county_fips'' \<in> set (columns daily)" and "''supply'' \<in> set (columns daily)"
    and "\<forall>r\<in>set (rows daily). r ''county_fips'' \<noteq> Text fips"
    and "selected_fips st = Some fips"
  shows "\<exists>title tbl c.
      hourly_long daily names hourly (selected_fips st) = Inr (title, tbl) \<and>
      (\<forall>row\<in>set tbl. agg_supply row = NaN) \<and>
      download_csv daily names hourly st = Inr c \<and>
      length (records c) = length tbl \<and>
      (\<forall>rec\<in>set (records c). length rec = 4 \<and> rec ! 3 = FloatField NaN)"
proof -
  let ?tbl = "aggregate [r \<leftarrow> hourly. county r = fips] NaN"
  have "county_supply daily fips = Inr NaN"
    using assms(2-4) by (rule county_supply_absent)
  with assms(1) have "hourly_long daily names hourly (Some fips) =
      Inr ((case names fips of Some name \<Rightarrow> name | None \<Rightarrow> ''County '' @ fips), ?tbl)"
    by (rule hourly_long_Some)
  with assms(5) have run: "hourly_long daily names hourly (selected_fips st) =
      Inr ((case names fips of Some name \<Rightarrow> name | None \<Rightarrow> ''County '' @ fips), ?tbl)"
    by simp
  then have csv: "download_csv daily names hourly st = Inr (to_csv ?tbl)"
    by (rule download_csv_run)
  have rows: "\<forall>row\<in>set ?tbl. agg_supply row = NaN"
    using aggregate_row(3) by blast
  then have recs: "\<forall>rec\<in>set (records (to_csv ?tbl)). length rec = 4 \<and> rec ! 3 = FloatField NaN"
    by (rule to_csv_records_supply)
  have len: "length (records (to_csv ?tbl)) = length ?tbl"
    by (simp add: to_csv_def)
  from run rows csv len recs show ?thesis
    by (intro exI conjI)
qed

lemma example_click_unknown:
  "selected_fips (process_click (Some ''18001'') init_session) = Some ''18001''"
  by (simp add: process_click_def read_popup_def clear_guard_def init_session_def
      cleaned_def re_sub_nondigit_def zfill_def is_digit_def)

theorem unknown_county_supply_nan_witness:
  "''18001'' \<noteq> [] \<and>
   ''county_fips'' \<in> set (columns example_daily) \<and>
   ''supply'' \<in> set (columns example_daily) \<and>
   list_all (\<lambda>r. r ''county_fips'' \<noteq> Text ''18001'') (rows example_daily) \<and>
   selected_fips (process_click (Some ''18001'') init_session) = Some ''18001'' \<and>
   (\<exists>title tbl c.
      hourly_long example_daily Map.empty example_hourly
        (selected_fips (process_click (Some ''18001'') init_session)) = Inr (title, tbl) \<and>
      map agg_hour tbl = [1] \<and> map agg_supply tbl = [NaN] \<and>
      download_csv example_daily Map.empty example_hourly
        (process_click (Some ''18001'') init_session) = Inr c \<and>
      records c = [[IntField 1, FloatField (Num 3), FloatField (Num 1), FloatField NaN]])"
proof -
  let ?st = "process_click (Some ''18001'') init_session"
  have h1: "''18001'' \<noteq> []" by simp
  have h4: "\<forall>r\<in>set (rows example_daily). r ''county_fips'' \<noteq> Text ''18001''"
    by (simp add: example_daily_def)
  note h5 = example_click_unknown
  from unknown_county_supply_nan [OF h1 example_daily_cols h4 h5, of Map.empty example_hourly]
  obtain title tbl c where
    run: "hourly_long example_daily Map.empty example_hourly (selected_fips ?st) = Inr (title, tbl)"
    and csv: "download_csv example_daily Map.empty example_hourly ?st = Inr c"
    by (elim exE conjE)
  from run have tbl: "tbl =
      [\<lparr>agg_hour = 1, agg_des_demand = 3, agg_undes_demand = 1, agg_supply = NaN\<rparr>]"
    unfolding h5 example_unknown_run by simp
  from csv run have c: "c = to_csv tbl"
    by (simp add: download_csv_def)
  have "map agg_hour tbl = [1]" "map agg_supply tbl = [NaN]"
    by (simp_all add: tbl)
  moreover have "records c = [[IntField 1, FloatField (Num 3), FloatField (Num 1), FloatField NaN]]"
    by (simp add: c tbl to_csv_def)
  ultimately have ex: "\<exists>title tbl c.
      hourly_long example_daily Map.empty example_hourly (selected_fips ?st) = Inr (title, tbl) \<and>
      map agg_hour tbl = [1] \<and> map agg_supply tbl = [NaN] \<and>
      download_csv example_daily Map.empty example_hourly ?st = Inr c \<and>
      records c = [[IntField 1, FloatField (Num 3), FloatField (Num 1), FloatField NaN]]"
    using run csv by (intro exI conjI)
  have all: "list_all (\<lambda>r. r ''county_fips'' \<noteq> Text ''18001'') (rows example_daily)"
    using h4 by (simp add: list_all_iff)
  from h1 example_daily_cols all h5 ex show ?thesis
    by (intro conjI)
qed

text \<open>
  C7. Whenever the aggregation returns a table, the download has the columns hour,
  designated demand, undesignated demand and supply, in this order, and one record
  for each row of the table with the values of that row as they are: the sums
  themselves and the supply constant, with no rounding step in between (the display
  columns of the map are rounded, the download is not).
\<close>

theorem download_csv_unrounded:
  assumes "hourly_long daily names hourly (selected_fips st) = Inr (title, tbl)"
  shows "\<exists>c sc. download_csv daily names hourly st = Inr c \<and>
      header c = [''hour'', ''des_demand'', ''undes_demand'', ''supply''] \<and>
      records c = map (\<lambda>row. [IntField (agg_hour row),
                               FloatField (Num (agg_des_demand row)),
                               FloatField (Num (agg_undes_demand row)),
                               FloatField (agg_supply row)]) tbl \<and>
      records c =
        (let sub = (case selected_fips st of
                      None \<Rightarrow> hourly
                    | Some f \<Rightarrow> if f \<noteq> [] then [r \<leftarrow> hourly. county r = f] else hourly)
         in map (\<lambda>h. [IntField h,
                      FloatField (Num (\<Sum>r\<leftarrow>[r \<leftarrow> sub. hour r = h]. des_demand r)),
                      FloatField (Num (\<Sum>r\<leftarrow>[r \<leftarrow> sub. hour r = h]. undes_demand r)),
                      FloatField sc])
                (sort (remdups (map hour sub))))"
proof -
  from assms obtain sc where tbl: "tbl = aggregate (case selected_fips st of
      None \<Rightarrow> hourly
    | Some f \<Rightarrow> if f \<noteq> [] then [r \<leftarrow> hourly. county r = f] else hourly) sc"
    using hourly_long_result by blast
  have csv: "download_csv daily names hourly st = Inr (to_csv tbl)"
    using assms by (rule download_csv_run)
  have hd: "header (to_csv tbl) = [''hour'', ''des_demand'', ''undes_demand'', ''supply'']"
    by (simp add: to_csv_def)
  have same: "records (to_csv tbl) =
      map (\<lambda>row. [IntField (agg_hour row), FloatField (Num (agg_des_demand row)),
                   FloatField (Num (agg_undes_demand row)), FloatField (agg_supply row)]) tbl"
    by (simp add: to_csv_def)
  have sums: "records (to_csv tbl) =
      (let sub = (case selected_fips st of
                    None \<Rightarrow> hourly
                  | Some f \<Rightarrow> if f \<noteq> [] then [r \<leftarrow> hourly. county r = f] else hourly)
       in map (\<lambda>h. [IntField h,
                    FloatField (Num (\<Sum>r\<leftarrow>[r \<leftarrow> sub. hour r = h]. des_demand r)),
                    FloatField (Num (\<Sum>r\<leftarrow>[r \<leftarrow> sub. hour r = h]. undes_demand r)),
                    FloatField sc])
              (sort (remdups (map hour sub))))"
    by (simp add: tbl to_csv_def aggregate_def Let_def comp_def)
  from csv hd same sums show ?thesis
    by (intro exI conjI)
qed

theorem download_csv_unrounded_witness:
  "hourly_long example_daily Map.empty example_hourly (selected_fips init_session) =
     Inr (''Indiana (statewide)'',
          [\<lparr>agg_hour = 0, agg_des_demand = 2, agg_undes_demand = 1, agg_supply = Num (19 / 2)\<rparr>,
           \<lparr>agg_hour = 1, agg_des_demand = 15 / 4, agg_undes_demand = 3,
            agg_supply = Num (19 / 2)\<rparr>]) \<and>
   (\<exists>c. download_csv example_daily Map.empty example_hourly init_session = Inr c \<and>
      header c = [''hour'', ''des_demand'', ''undes_demand'', ''supply''] \<and>
      records c =
        [[IntField 0, FloatField (Num 2), FloatField (Num 1), FloatField (Num (19 / 2))],
         [IntField 1, FloatField (Num (15 / 4)), FloatField (Num 3),
          FloatField (Num (19 / 2))]]) \<and>
   round_int (Num (15 / 4)) = Num 4 \<and> round_int (Num (19 / 2)) = Num 10"
proof -
  have run: "hourly_long example_daily Map.empty example_hourly (selected_fips init_session) =
     Inr (''Indiana (statewide)'',
          [\<lparr>agg_hour = 0, agg_des_demand = 2, agg_undes_demand = 1, agg_supply = Num (19 / 2)\<rparr>,
           \<lparr>agg_hour = 1, agg_des_demand = 15 / 4, agg_undes_demand = 3,
            agg_supply = Num (19 / 2)\<rparr>])"
    by (simp add: init_session_def example_statewide_run)
  from download_csv_unrounded [OF run]
  obtain c sc where csv: "download_csv example_daily Map.empty example_hourly init_session = Inr c"
    and hd: "header c = [''hour'', ''des_demand'', ''undes_demand'', ''supply'']"
    and recs: "records c = map (\<lambda>row. [IntField (agg_hour row),
                               FloatField (Num (agg_des_demand row)),
                               FloatField (Num (agg_undes_demand row)),
                               FloatField (agg_supply row)])
          [\<lparr>agg_hour = 0, agg_des_demand = 2, agg_undes_demand = 1, agg_supply = Num (19 / 2)\<rparr>,
           \<lparr>agg_hour = 1, agg_des_demand = 15 / 4, agg_undes_demand = 3,
            agg_supply = Num (19 / 2)\<rparr>]"
    by (elim exE conjE)
  from recs have recs': "records c =
        [[IntField 0, FloatField (Num 2), FloatField (Num 1), FloatField (Num (19 / 2))],
         [IntField 1, FloatField (Num (15 / 4)), FloatField (Num 3),
          FloatField (Num (19 / 2))]]"
    by simp
  from csv hd recs' have ex: "\<exists>c.
      download_csv example_daily Map.empty example_hourly init_session = Inr c \<and>
      header c = [''hour'', ''des_demand'', ''undes_demand'', ''supply''] \<and>
      records c =
        [[IntField 0, FloatField (Num 2), FloatField (Num 1), FloatField (Num (19 / 2))],
         [IntField 1, FloatField (Num (15 / 4)), FloatField (Num 3),
          FloatField (Num (19 / 2))]]"
    by (intro exI conjI)
  have r1: "round_int (Num (15 / 4)) = Num 4"
    by (simp add: round_int_def round_half_even_def astype_int64_def Let_def)
  have r2: "round_int (Num (19 / 2)) = Num 10"
    by (simp add: round_int_def round_half_even_def astype_int64_def Let_def)
  from run ex r1 r2 show ?thesis
    by (intro conjI)
qed


subsection \<open>Filling a column\<close>






lemma columns_assign_present:
  "c \<in> set (columns g) \<Longrightarrow> columns (assign_column c f g) = columns g"
  by (simp add: assign_column_def)






subsection \<open>The merge of tables that share the key only\<close>













subsection \<open>The joined table\<close>










subsection \<open>Column names\<close>






subsection \<open>The display columns\<close>





subsection \<open>The whole pipeline\<close>










subsection \<open>The whole pipeline\<close>






subsection \<open>Colliding labels\<close>

text \<open>
  A column \<open>foo\<close> in both tables beside a column \<open>foo_x\<close> of the daily table: the merge
  returns the label \<open>foo_x\<close> twice and line 252 raises. Two columns \<open>foo\<close> and \<open>foo_x\<close>
  of the geometry beside a column \<open>foo\<close> of the daily table: the merge itself raises.
\<close>

lemma cross_collision_raises:
  "join_and_fill
     \<lparr>columns = [''county_fips'', ''foo''], rows = []\<rparr>
     \<lparr>columns = [''county_fips'', ''foo'', ''foo_x''], rows = []\<rparr> = Inl TypeOrValueError"
  by (simp add: join_and_fill_def merge_left_def overlapping_def left_name_def
      right_name_def num_cols_def fill_step_def assign_column_def)

lemma same_side_collision_raises:
  "merge_left ''county_fips''
     \<lparr>columns = [''county_fips'', ''foo'', ''foo_x''], rows = []\<rparr>
     \<lparr>columns = [''county_fips'', ''foo''], rows = []\<rparr> = Inl MergeError"
  by (simp add: merge_left_def overlapping_def left_name_def right_name_def)


end
